theory Spec2Isabelle
  imports Complex_Main
begin

section \<open>Numbers, vectors and scene nodes\<close>

text \<open>
  JavaScript numbers are modelled as \<^typ>\<open>real\<close>: the development is about the
  arithmetic the animation code writes down, with rounding left out.
  \<open>Math.sin\<close> and \<open>Math.cos\<close> are \<^const>\<open>sin\<close> and \<^const>\<open>cos\<close>.
\<close>

text \<open>\<open>THREE.Vector3\<close> and \<open>THREE.Euler\<close>: three components \<open>x\<close>, \<open>y\<close>, \<open>z\<close>.\<close>

record vector3 =
  vx :: real
  vy :: real
  vz :: real

definition Vector3 :: "real \<Rightarrow> real \<Rightarrow> real \<Rightarrow> vector3" where
  "Vector3 a b c = \<lparr>vx = a, vy = b, vz = c\<rparr>"

text \<open>\<open>THREE.Object3D\<close> (a \<open>group\<close>): the local transform.\<close>

record object3d =
  position :: vector3
  rotation :: vector3
  scale :: vector3

definition group :: "vector3 \<Rightarrow> vector3 \<Rightarrow> object3d" where
  "group pos rot = \<lparr>position = pos, rotation = rot, scale = Vector3 1 1 1\<rparr>"

text \<open>
  Modelled from the spec: \<open>THREE.MathUtils.lerp\<close> belongs to the three.js library and
  is not under src/. The spec calls the smoothed value an interpolation toward a target
  value; three.js computes \<open>(1 - t) * x + t * y\<close>.
\<close>

definition lerp :: "real \<Rightarrow> real \<Rightarrow> real \<Rightarrow> real" where
  "lerp x y t = (1 - t) * x + t * y"

text \<open>
  \<open>THREE.Color\<close>: red, green and blue components. A colour written as a hex string is
  taken as its three bytes over 255; \<open>Color.lerp\<close> moves every component by
  \<open>(c - this) * alpha\<close>.
\<close>

record color =
  cr :: real
  cg :: real
  cb :: real

definition Color :: "nat \<Rightarrow> nat \<Rightarrow> nat \<Rightarrow> color" where
  "Color r g b = \<lparr>cr = real r / 255, cg = real g / 255, cb = real b / 255\<rparr>"

definition color_lerp :: "color \<Rightarrow> color \<Rightarrow> real \<Rightarrow> color" where
  "color_lerp this c alpha =
     \<lparr>cr = cr this + (cr c - cr this) * alpha,
      cg = cg this + (cg c - cg this) * alpha,
      cb = cb this + (cb c - cb this) * alpha\<rparr>"

text \<open>A cheek: a mesh with a \<open>meshBasicMaterial\<close> (colour and opacity).\<close>

record cheek_mesh = object3d +
  mat_color :: color
  mat_opacity :: real

definition setScalar :: "real \<Rightarrow> vector3" where
  "setScalar s = Vector3 s s s"

section \<open>CalicoCat\<close>

text \<open>
  The component's refs (\<open>None\<close> is a \<open>null\<close> ref), the \<open>currentBlush\<close> ref, the
  \<open>isBlushing\<close> state and the \<open>blushTimeoutRef\<close> ref holding a timer id.
\<close>

record calico =
  headRef :: "object3d option"
  bodyRef :: "object3d option"
  tailRef :: "object3d option"
  leftArmRef :: "object3d option"
  rightArmRef :: "object3d option"
  leftCheekRef :: "cheek_mesh option"
  rightCheekRef :: "cheek_mesh option"
  currentBlush :: real
  isBlushing :: bool
  blushTimeoutRef :: "nat option"

text \<open>The part of the host's frame state the callbacks read.\<close>

record frame_state =
  elapsedTime :: real
  pointer_x :: real
  pointer_y :: real

text \<open>The component as the JSX constructs it, every ref attached.\<close>

definition cheek :: "vector3 \<Rightarrow> cheek_mesh" where
  "cheek pos = \<lparr>position = pos, rotation = Vector3 0 0 0, scale = Vector3 1 1 1,
     mat_color = Color 0xff 0xb7 0xb2, mat_opacity = 0.4\<rparr>"

definition CalicoCat :: calico where
  "CalicoCat =
     \<lparr>headRef = Some (group (Vector3 0 1.35 0) (Vector3 0 0 0)),
      bodyRef = Some (group (Vector3 0 (-1.8) 0) (Vector3 0 0 0)),
      tailRef = Some (group (Vector3 0 0.3 (-0.6)) (Vector3 (-0.5) 0 0)),
      leftArmRef = Some (group (Vector3 0.6 0.8 0) (Vector3 0 0 2.5)),
      rightArmRef = Some (group (Vector3 (-0.7) 0.6 0.3) (Vector3 0 0 (-2.0))),
      leftCheekRef = Some (cheek (Vector3 (-0.45) (-0.05) (-0.05))),
      rightCheekRef = Some (cheek (Vector3 0.45 (-0.05) (-0.05))),
      currentBlush = 0,
      isBlushing = False,
      blushTimeoutRef = None\<rparr>"

subsection \<open>The per-frame callback\<close>

text \<open>Head tracking and bobbing.\<close>

definition frame_head :: "frame_state \<Rightarrow> object3d \<Rightarrow> object3d" where
  "frame_head state h =
     (let t = elapsedTime state;
          baseRotY = sin (t * 1) * 0.1;
          baseRotZ = sin (t * 2) * 0.05;
          mouseX = pointer_x state * 0.6;
          mouseY = pointer_y state * 0.3;
          r = rotation h;
          r1 = r\<lparr>vy := lerp (vy r) (baseRotY + mouseX) 0.1\<rparr>;
          r2 = r1\<lparr>vx := lerp (vx r1) (- mouseY) 0.1\<rparr>;
          r3 = r2\<lparr>vz := baseRotZ\<rparr>
      in h\<lparr>rotation := r3\<rparr>)"

text \<open>Body breathing and swaying.\<close>

definition frame_body :: "frame_state \<Rightarrow> object3d \<Rightarrow> object3d" where
  "frame_body state b =
     (let t = elapsedTime state;
          b1 = b\<lparr>position := (position b)\<lparr>vy := - 1.8 + sin (t * 2) * 0.03\<rparr>\<rparr>
      in b1\<lparr>rotation := (rotation b1)\<lparr>vz := sin (t * 1.5) * 0.04\<rparr>\<rparr>)"

text \<open>Tail wagging.\<close>

definition frame_tail :: "frame_state \<Rightarrow> object3d \<Rightarrow> object3d" where
  "frame_tail state g =
     (let t = elapsedTime state;
          r1 = (rotation g)\<lparr>vy := sin (t * 3) * 0.3\<rparr>;
          r2 = r1\<lparr>vx := - 0.5 + sin (t * 5) * 0.05\<rparr>
      in g\<lparr>rotation := r2\<rparr>)"

text \<open>Arm animation: only the left arm is written.\<close>

definition frame_leftArm :: "frame_state \<Rightarrow> object3d \<Rightarrow> object3d" where
  "frame_leftArm state a =
     (let t = elapsedTime state
      in a\<lparr>rotation := (rotation a)\<lparr>vz := 2.5 + sin (t * 2.5) * 0.15\<rparr>\<rparr>)"

text \<open>A cheek takes the interpolated scale, colour and opacity.\<close>

definition frame_cheek :: "real \<Rightarrow> color \<Rightarrow> real \<Rightarrow> cheek_mesh \<Rightarrow> cheek_mesh" where
  "frame_cheek blushScale currentColor blushOpacity m =
     m\<lparr>scale := setScalar blushScale, mat_color := currentColor,
       mat_opacity := blushOpacity\<rparr>"

definition useFrame_CalicoCat :: "frame_state \<Rightarrow> real \<Rightarrow> calico \<Rightarrow> calico" where
  "useFrame_CalicoCat state delta c =
     (let c1 = c\<lparr>headRef := map_option (frame_head state) (headRef c)\<rparr>;
          c2 = c1\<lparr>bodyRef := map_option (frame_body state) (bodyRef c1)\<rparr>;
          c3 = c2\<lparr>tailRef := map_option (frame_tail state) (tailRef c2)\<rparr>;
          c4 = c3\<lparr>leftArmRef := map_option (frame_leftArm state) (leftArmRef c3)\<rparr>;
          targetBlush = (if isBlushing c4 then 1 else 0);
          c5 = c4\<lparr>currentBlush := lerp (currentBlush c4) targetBlush (delta * 3.0)\<rparr>;
          blushScale = 1.0 + currentBlush c5 * 0.2;
          blushOpacity = 0.2 + currentBlush c5 * 0.6;
          baseColor = Color 0xff 0xb7 0xb2;
          flushColor = Color 0xff 0x80 0xab;
          currentColor = color_lerp baseColor flushColor (currentBlush c5);
          c6 = c5\<lparr>leftCheekRef :=
                 map_option (frame_cheek blushScale currentColor blushOpacity) (leftCheekRef c5)\<rparr>
      in c6\<lparr>rightCheekRef :=
             map_option (frame_cheek blushScale currentColor blushOpacity) (rightCheekRef c6)\<rparr>)"

text \<open>Consecutive frames: the host calls the callback once per frame, oldest first.\<close>

fun frames_CalicoCat :: "(frame_state \<times> real) list \<Rightarrow> calico \<Rightarrow> calico" where
  "frames_CalicoCat [] c = c"
| "frames_CalicoCat ((state, delta) # fs) c = frames_CalicoCat fs (useFrame_CalicoCat state delta c)"

subsection \<open>Which nodes a frame writes\<close>

text \<open>
  The nodes of the cat that a ref addresses. A node counts as written by a step when
  the value behind its ref differs after the step.
\<close>

datatype cat_node = Head | Body | Tail | LeftArm | RightArm | LeftCheek | RightCheek

definition node_written :: "calico \<Rightarrow> calico \<Rightarrow> cat_node \<Rightarrow> bool" where
  "node_written c c' n =
     (case n of
        Head \<Rightarrow> headRef c' \<noteq> headRef c
      | Body \<Rightarrow> bodyRef c' \<noteq> bodyRef c
      | Tail \<Rightarrow> tailRef c' \<noteq> tailRef c
      | LeftArm \<Rightarrow> leftArmRef c' \<noteq> leftArmRef c
      | RightArm \<Rightarrow> rightArmRef c' \<noteq> rightArmRef c
      | LeftCheek \<Rightarrow> leftCheekRef c' \<noteq> leftCheekRef c
      | RightCheek \<Rightarrow> rightCheekRef c' \<noteq> rightCheekRef c)"

definition written_nodes :: "calico \<Rightarrow> calico \<Rightarrow> cat_node list" where
  "written_nodes c c' =
     filter (node_written c c') [Head, Body, Tail, LeftArm, RightArm, LeftCheek, RightCheek]"

subsection \<open>The head click and its timer\<close>

text \<open>
  The host's timers, with time in milliseconds. A pending timer is its id and the time
  it is due; the only callback this program registers is \<open>() => setIsBlushing(false)\<close>.
  Ids are handed out in increasing order, starting from 1 as browsers do. The host is
  taken to run a callback at the moment it is due.
\<close>

record host =
  now :: nat
  timers :: "(nat \<times> nat) list"
  nextTimerId :: nat

definition host0 :: host where
  "host0 = \<lparr>now = 0, timers = [], nextTimerId = 1\<rparr>"

definition setTimeout :: "nat \<Rightarrow> host \<Rightarrow> nat \<times> host" where
  "setTimeout ms hst =
     (nextTimerId hst,
      hst\<lparr>timers := timers hst @ [(nextTimerId hst, now hst + ms)],
          nextTimerId := Suc (nextTimerId hst)\<rparr>)"

definition clearTimeout :: "nat \<Rightarrow> host \<Rightarrow> host" where
  "clearTimeout i hst = hst\<lparr>timers := filter (\<lambda>(j, due). j \<noteq> i) (timers hst)\<rparr>"

text \<open>\<open>if (blushTimeoutRef.current)\<close>: \<open>null\<close> and the number 0 are falsy.\<close>

definition handleHeadClick :: "host \<times> calico \<Rightarrow> host \<times> calico" where
  "handleHeadClick s =
     (let hst = fst s;
          c1 = (snd s)\<lparr>isBlushing := True\<rparr>;
          hst1 = (case blushTimeoutRef c1 of
                    None \<Rightarrow> hst
                  | Some i \<Rightarrow> if i \<noteq> 0 then clearTimeout i hst else hst);
          (i, hst2) = setTimeout 2000 hst1
      in (hst2, c1\<lparr>blushTimeoutRef := Some i\<rparr>))"

text \<open>
  Time passes: the clock advances by \<open>d\<close> milliseconds and every timer due by then
  runs its callback and leaves the pending list.
\<close>

definition elapse :: "nat \<Rightarrow> host \<times> calico \<Rightarrow> host \<times> calico" where
  "elapse d s =
     (let hst = fst s;
          t = now hst + d;
          due = filter (\<lambda>(j, w). w \<le> t) (timers hst);
          hst1 = hst\<lparr>now := t, timers := filter (\<lambda>(j, w). \<not> w \<le> t) (timers hst)\<rparr>
      in (hst1, fold (\<lambda>_ c. c\<lparr>isBlushing := False\<rparr>) due (snd s)))"

text \<open>What happens to the cat between frames: a click on the head, or time passing.\<close>

datatype event = HeadClick | Elapse nat

fun run :: "event list \<Rightarrow> host \<times> calico \<Rightarrow> host \<times> calico" where
  "run [] s = s"
| "run (HeadClick # es) s = run es (handleHeadClick s)"
| "run (Elapse d # es) s = run es (elapse d s)"

text \<open>
  The invariant of the click handler: every pending timer is the one
  \<open>blushTimeoutRef\<close> holds, under a truthy id.
\<close>

definition timer_inv :: "host \<times> calico \<Rightarrow> bool" where
  "timer_inv s = (nextTimerId (fst s) \<noteq> 0
     \<and> list_all (\<lambda>(j, w). j \<noteq> 0 \<and> blushTimeoutRef (snd s) = Some j) (timers (fst s)))"

section \<open>RotatingTree\<close>

text \<open>The group that holds the apple and the ribbon; its ref may be \<open>null\<close>.\<close>

definition RotatingTree :: "object3d option" where
  "RotatingTree = Some (group (Vector3 0 0 0) (Vector3 0 0 0))"

definition useFrame_RotatingTree :: "real \<Rightarrow> object3d option \<Rightarrow> object3d option" where
  "useFrame_RotatingTree delta ref =
     (case ref of
        None \<Rightarrow> None
      | Some g \<Rightarrow> Some (g\<lparr>rotation := (rotation g)\<lparr>vy := vy (rotation g) + delta * 0.15\<rparr>\<rparr>))"

text \<open>One call per frame, each with that frame's \<open>delta\<close>.\<close>

fun frames_RotatingTree :: "real list \<Rightarrow> object3d option \<Rightarrow> object3d option" where
  "frames_RotatingTree [] ref = ref"
| "frames_RotatingTree (delta # ds) ref = frames_RotatingTree ds (useFrame_RotatingTree delta ref)"

section \<open>DriftingSnow\<close>

record particle =
  p_position :: vector3
  speed :: real
  driftOffset :: real
  p_scale :: real

text \<open>
  The instanced mesh: the transform written for each instance (the position, rotation
  and scale that \<open>dummy.updateMatrix()\<close> composes into the instance's matrix) and the
  \<open>needsUpdate\<close> flag of the instance matrix.
\<close>

record instanced_mesh =
  instances :: "object3d list"
  instanceMatrix_needsUpdate :: bool

text \<open>
  \<open>Math.random()\<close> is an input: \<open>rnd k\<close> is the value of the \<open>k\<close>-th call, a number in
  \<open>[0, 1)\<close>, and \<open>randomCalls\<close> counts the calls made so far.
\<close>

record snow =
  meshRef :: "instanced_mesh option"
  particles :: "particle list"
  randomCalls :: nat

text \<open>The body of the \<open>forEach\<close> for one particle: fall, drift, reset below the floor.\<close>

definition updateParticle :: "(nat \<Rightarrow> real) \<Rightarrow> real \<Rightarrow> particle \<times> nat \<Rightarrow> particle \<times> nat" where
  "updateParticle rnd time pk =
     (let p = fst pk;
          k = snd pk;
          pos1 = (p_position p)\<lparr>vy := vy (p_position p) - speed p\<rparr>;
          driftX = sin (time * 0.5 + driftOffset p) * 0.02;
          driftZ = cos (time * 0.3 + driftOffset p) * 0.02;
          pos2 = pos1\<lparr>vx := vx pos1 + driftX\<rparr>;
          pos3 = pos2\<lparr>vz := vz pos2 + driftZ\<rparr>
      in if vy pos3 < - 3
         then (let pos4 = pos3\<lparr>vy := 10\<rparr>;
                   pos5 = pos4\<lparr>vx := (rnd k - 0.5) * 15\<rparr>;
                   pos6 = pos5\<lparr>vz := (rnd (Suc k) - 0.5) * 15\<rparr>
               in (p\<lparr>p_position := pos6\<rparr>, k + 2))
         else (p\<lparr>p_position := pos3\<rparr>, k))"

text \<open>The transform of \<open>dummy\<close> that is stored for an instance.\<close>

definition dummy :: "real \<Rightarrow> particle \<Rightarrow> object3d" where
  "dummy time p =
     \<lparr>position = p_position p,
      rotation = Vector3 (time + driftOffset p) (time * 0.5) 0,
      scale = setScalar (p_scale p)\<rparr>"

text \<open>
  \<open>particles.forEach((p, i) => ...)\<close>, from index \<open>i\<close> on. \<open>setMatrixAt\<close> writes into
  a typed array, where a write past the end is dropped, as \<open>list_update\<close> does.
\<close>

fun forEach :: "(nat \<Rightarrow> real) \<Rightarrow> real \<Rightarrow> nat \<Rightarrow> particle list \<Rightarrow> nat \<times> instanced_mesh
    \<Rightarrow> particle list \<times> nat \<times> instanced_mesh" where
  "forEach rnd time i [] km = ([], km)"
| "forEach rnd time i (p # ps) km =
     (let pk = updateParticle rnd time (p, fst km);
          m1 = (snd km)\<lparr>instances := (instances (snd km))[i := dummy time (fst pk)]\<rparr>;
          rest = forEach rnd time (Suc i) ps (snd pk, m1)
      in (fst pk # fst rest, snd rest))"

definition useFrame_DriftingSnow :: "(nat \<Rightarrow> real) \<Rightarrow> frame_state \<Rightarrow> snow \<Rightarrow> snow" where
  "useFrame_DriftingSnow rnd state s =
     (case meshRef s of
        None \<Rightarrow> s
      | Some m \<Rightarrow>
          (let time = elapsedTime state;
               r = forEach rnd time 0 (particles s) (randomCalls s, m)
           in s\<lparr>particles := fst r,
                randomCalls := fst (snd r),
                meshRef := Some ((snd (snd r))\<lparr>instanceMatrix_needsUpdate := True\<rparr>)\<rparr>))"

text \<open>
  How many particles of a list a frame sends back to the top: those whose \<open>y\<close> minus
  speed is below \<open>-3\<close>. Each of them makes two calls of \<open>Math.random()\<close>.
\<close>

definition resets :: "particle list \<Rightarrow> nat" where
  "resets ps = length (filter (\<lambda>p. vy (p_position p) - speed p < - 3) ps)"

text \<open>
  A concrete scene for the properties below: one snowflake just above the floor, and
  a random source whose every answer is 0, the least value \<open>Math.random()\<close> can give.
\<close>

definition rnd_low :: "nat \<Rightarrow> real" where
  "rnd_low k = 0"

definition snow_one :: snow where
  "snow_one =
     \<lparr>meshRef = Some \<lparr>instances = [group (Vector3 0 0 0) (Vector3 0 0 0)],
                       instanceMatrix_needsUpdate = False\<rparr>,
      particles = [\<lparr>p_position = Vector3 0 (- 2.99) 0, speed = 0.02, driftOffset = 0,
                    p_scale = 0.2\<rparr>],
      randomCalls = 0\<rparr>"

section \<open>PeelRibbon: the clay wobble\<close>

text \<open>
  A ribbon mesh: the \<open>userData.distorted\<close> flag, the geometry's position attribute
  (one vector per vertex), its normals, and the attribute's \<open>needsUpdate\<close> flag.
\<close>

record ribbon_mesh =
  userData_distorted :: bool
  geo_position :: "vector3 list"
  geo_normal :: "vector3 list"
  position_needsUpdate :: bool

text \<open>The loop body: the three noise terms are read off the vertex before it is moved.\<close>

definition clayWobble :: "vector3 \<Rightarrow> vector3" where
  "clayWobble v =
     (let noiseX = sin (vy v * 3.0) * 0.03;
          noiseZ = cos (vy v * 4.5) * 0.03;
          thicknessNoise = sin (vy v * 10 + vx v * 5) * 0.01;
          v1 = v\<lparr>vx := vx v + noiseX\<rparr>;
          v2 = v1\<lparr>vz := vz v1 + noiseZ\<rparr>
      in v2\<lparr>vy := vy v2 + thicknessNoise\<rparr>)"

function distortLoop :: "nat \<Rightarrow> vector3 list \<Rightarrow> vector3 list" where
  "distortLoop i pos =
     (if i < length pos then distortLoop (Suc i) (pos[i := clayWobble (pos ! i)]) else pos)"
  by pat_completeness auto
termination
  by (relation "measure (\<lambda>(i, pos). length pos - i)") auto

declare distortLoop.simps [simp del]

text \<open>
  \<open>geo.computeVertexNormals()\<close> is three.js code: it is a parameter, a function from
  the positions to the normals.
\<close>

definition applyClayDistortion ::
    "(vector3 list \<Rightarrow> vector3 list) \<Rightarrow> ribbon_mesh option \<Rightarrow> ribbon_mesh option" where
  "applyClayDistortion computeVertexNormals mesh =
     (case mesh of
        None \<Rightarrow> None
      | Some m \<Rightarrow>
          if userData_distorted m then Some m
          else (let m1 = m\<lparr>userData_distorted := True\<rparr>;
                    m2 = m1\<lparr>geo_position := distortLoop 0 (geo_position m1)\<rparr>;
                    m3 = m2\<lparr>geo_normal := computeVertexNormals (geo_position m2)\<rparr>
                in Some (m3\<lparr>position_needsUpdate := True\<rparr>)))"

section \<open>App: background music\<close>

record audio =
  volume :: real
  paused :: bool

record app =
  isPlaying :: bool
  audioRef :: "audio option"
  console :: "string list"

text \<open>
  What \<open>audio.play()\<close> gives back is the host's choice: \<open>undefined\<close>, or a promise that
  resolves, or one that rejects with an error.
\<close>

datatype play_result = Undefined | Resolves | Rejects string

text \<open>A settled promise: fulfilled, or rejected with an error nobody has handled yet.\<close>

datatype settled = Fulfilled | Rejected string

definition audio_play :: "play_result \<Rightarrow> audio \<Rightarrow> audio" where
  "audio_play r a = (case r of Rejects e \<Rightarrow> a | _ \<Rightarrow> a\<lparr>paused := False\<rparr>)"

definition audio_pause :: "audio \<Rightarrow> audio" where
  "audio_pause a = a\<lparr>paused := True\<rparr>"

text \<open>\<open>.then(f)\<close> and \<open>.catch(g)\<close> for handlers that do not throw.\<close>

fun then_handler :: "(app \<Rightarrow> app) \<Rightarrow> settled \<times> app \<Rightarrow> settled \<times> app" where
  "then_handler f (Fulfilled, s) = (Fulfilled, f s)"
| "then_handler f (Rejected e, s) = (Rejected e, s)"

fun catch_handler :: "(string \<Rightarrow> app \<Rightarrow> app) \<Rightarrow> settled \<times> app \<Rightarrow> settled \<times> app" where
  "catch_handler g (Fulfilled, s) = (Fulfilled, s)"
| "catch_handler g (Rejected e, s) = (Fulfilled, g e s)"

definition setIsPlaying :: "bool \<Rightarrow> app \<Rightarrow> app" where
  "setIsPlaying b s = s\<lparr>isPlaying := b\<rparr>"

definition console_log :: "string \<Rightarrow> app \<Rightarrow> app" where
  "console_log msg s = s\<lparr>console := console s @ [msg]\<rparr>"

text \<open>
  The autoplay effect. The result is the app state and the promise at the end of the
  chain: \<open>None\<close> when no promise was made.
\<close>

definition useEffect_autoplay :: "play_result \<Rightarrow> app \<Rightarrow> settled option \<times> app" where
  "useEffect_autoplay r s =
     (case audioRef s of
        None \<Rightarrow> (None, s)
      | Some a \<Rightarrow>
          (let a1 = a\<lparr>volume := 0.3\<rparr>;
               s1 = s\<lparr>audioRef := Some (audio_play r a1)\<rparr>;
               chain = (\<lambda>playPromise.
                  catch_handler
                    (\<lambda>error s. setIsPlaying False
                       (console_log ''Autoplay prevented by browser, waiting for user interaction.'' s))
                    (then_handler (setIsPlaying True) (playPromise, s1)))
           in case r of
                Undefined \<Rightarrow> (None, s1)
              | Resolves \<Rightarrow> (Some (fst (chain Fulfilled)), snd (chain Fulfilled))
              | Rejects e \<Rightarrow> (Some (fst (chain (Rejected e))), snd (chain (Rejected e)))))"

text \<open>
  \<open>toggleMusic\<close>. The promise of \<open>play()\<close> is dropped here: it is returned as it
  settled, with no handler attached.
\<close>

definition toggleMusic :: "play_result \<Rightarrow> app \<Rightarrow> settled option \<times> app" where
  "toggleMusic r s =
     (case audioRef s of
        None \<Rightarrow> (None, s)
      | Some a \<Rightarrow>
          if isPlaying s
          then (None, setIsPlaying False (s\<lparr>audioRef := Some (audio_pause a)\<rparr>))
          else (case r of Undefined \<Rightarrow> None | Resolves \<Rightarrow> Some Fulfilled | Rejects e \<Rightarrow> Some (Rejected e),
                setIsPlaying True (s\<lparr>audioRef := Some (audio_play r a)\<rparr>)))"

text \<open>The app as it mounts: not playing, the audio element attached and paused.\<close>

definition App :: app where
  "App = \<lparr>isPlaying = False, audioRef = Some \<lparr>volume = 1, paused = True\<rparr>, console = []\<rparr>"

section \<open>Properties\<close>

lemma useFrame_bodyRef:
  "bodyRef (useFrame_CalicoCat state delta c) = map_option (frame_body state) (bodyRef c)"
  by (simp add: useFrame_CalicoCat_def Let_def)

text \<open>
  Claim C8. Whenever the body group is attached, the frame callback puts the body at
  height \<open>-1.8 + 0.03 * sin (2 * t)\<close>: its offset from the rest height \<open>-1.8\<close> is
  \<open>0.03 * sin (2 * t)\<close> and lies in \<open>[-0.03, 0.03]\<close>, for every elapsed time \<open>t\<close>.
\<close>

theorem C8_body_bob_bounded:
  assumes "bodyRef c = Some b"
  shows "\<exists>b'. bodyRef (useFrame_CalicoCat state delta c) = Some b'
           \<and> vy (position b') - (- 1.8) = 0.03 * sin (2 * elapsedTime state)
           \<and> - 0.03 \<le> vy (position b') - (- 1.8)
           \<and> vy (position b') - (- 1.8) \<le> 0.03"
proof -
  let ?t = "elapsedTime state"
  have b1: "- 1 \<le> sin (2 * ?t)" and b2: "sin (2 * ?t) \<le> 1"
    by simp_all
  have eq: "vy (position (frame_body state b)) - (- 1.8) = 0.03 * sin (2 * ?t)"
    by (simp add: frame_body_def Let_def mult.commute)
  from b1 b2 have "- 0.03 \<le> 0.03 * sin (2 * ?t)" and "0.03 * sin (2 * ?t) \<le> 0.03"
    by simp_all
  with eq have "- 0.03 \<le> vy (position (frame_body state b)) - (- 1.8)"
    and "vy (position (frame_body state b)) - (- 1.8) \<le> 0.03"
    by linarith+
  moreover have "bodyRef (useFrame_CalicoCat state delta c) = Some (frame_body state b)"
    using assms by (simp add: useFrame_bodyRef)
  ultimately show ?thesis
    using eq by blast
qed

theorem C8_body_bob_bounded_witness:
  "bodyRef CalicoCat = Some (group (Vector3 0 (-1.8) 0) (Vector3 0 0 0))
   \<and> (\<exists>b'. bodyRef (useFrame_CalicoCat \<lparr>elapsedTime = 0, pointer_x = 0, pointer_y = 0\<rparr> 0 CalicoCat) = Some b'
           \<and> vy (position b') - (- 1.8) = 0
           \<and> - 0.03 \<le> vy (position b') - (- 1.8)
           \<and> vy (position b') - (- 1.8) \<le> 0.03)"
proof -
  have h: "bodyRef CalicoCat = Some (group (Vector3 0 (-1.8) 0) (Vector3 0 0 0))"
    by (simp add: CalicoCat_def)
  show ?thesis
    using h C8_body_bob_bounded [OF h, of "\<lparr>elapsedTime = 0, pointer_x = 0, pointer_y = 0\<rparr>" 0]
    by simp
qed

lemma lerp_alt: "lerp x T a = x + a * (T - x)"
  by (simp add: lerp_def algebra_simps)

lemma lerp_between:
  assumes "0 \<le> a" "a \<le> 1"
  shows "min x T \<le> lerp x T a \<and> lerp x T a \<le> max x T"
proof -
  define d where "d = a * (T - x)"
  have l: "lerp x T a = x + d"
    by (simp add: d_def lerp_alt)
  show ?thesis
  proof (cases "x \<le> T")
    case True
    then have "0 \<le> d"
      using assms by (simp add: d_def)
    moreover have "a * (T - x) \<le> 1 * (T - x)"
      using True assms by (intro mult_right_mono) simp_all
    then have "d \<le> T - x"
      by (simp add: d_def)
    ultimately show ?thesis
      using True unfolding l by (intro conjI) linarith+
  next
    case False
    define e where "e = a * (x - T)"
    have "a * (x - T) \<le> 1 * (x - T)"
      using False assms by (intro mult_right_mono) simp_all
    then have "e \<le> x - T"
      by (simp add: e_def)
    moreover have "0 \<le> e"
      using False assms by (simp add: e_def)
    moreover have "d = - e"
      by (simp add: d_def e_def algebra_simps)
    ultimately have "d \<le> 0" and "T - x \<le> d"
      by linarith+
    then show ?thesis
      using False unfolding l by (intro conjI) linarith+
  qed
qed

lemma lerp_distance:
  assumes "0 \<le> a" "a \<le> 1"
  shows "\<bar>lerp x T a - T\<bar> \<le> \<bar>x - T\<bar>"
proof -
  have "lerp x T a - T = (1 - a) * (x - T)"
    by (simp add: lerp_def algebra_simps)
  then have "\<bar>lerp x T a - T\<bar> = (1 - a) * \<bar>x - T\<bar>"
    using assms by (simp add: abs_mult)
  also have "\<dots> \<le> 1 * \<bar>x - T\<bar>"
    using assms by (intro mult_right_mono) simp_all
  finally show ?thesis by simp
qed

lemma useFrame_headRef:
  "headRef (useFrame_CalicoCat state delta c) = map_option (frame_head state) (headRef c)"
  by (simp add: useFrame_CalicoCat_def Let_def)

lemma useFrame_rightArmRef:
  "rightArmRef (useFrame_CalicoCat state delta c) = rightArmRef c"
  by (simp add: useFrame_CalicoCat_def Let_def)

lemma useFrame_currentBlush:
  "currentBlush (useFrame_CalicoCat state delta c) =
     lerp (currentBlush c) (if isBlushing c then 1 else 0) (delta * 3.0)"
  by (simp add: useFrame_CalicoCat_def Let_def)

lemma useFrame_isBlushing:
  "isBlushing (useFrame_CalicoCat state delta c) = isBlushing c"
  by (simp add: useFrame_CalicoCat_def Let_def)

lemma useFrame_leftCheekRef:
  "leftCheekRef (useFrame_CalicoCat state delta c) =
     (let b = lerp (currentBlush c) (if isBlushing c then 1 else 0) (delta * 3.0)
      in map_option (frame_cheek (1.0 + b * 0.2)
           (color_lerp (Color 0xff 0xb7 0xb2) (Color 0xff 0x80 0xab) b) (0.2 + b * 0.6))
           (leftCheekRef c))"
  by (simp add: useFrame_CalicoCat_def Let_def)

lemma frame_head_rotation_x:
  "vx (rotation (frame_head state h)) = lerp (vx (rotation h)) (- (pointer_y state * 0.3)) 0.1"
  by (simp add: frame_head_def Let_def)

lemma frame_head_rotation_y:
  "vy (rotation (frame_head state h)) =
     lerp (vy (rotation h)) (sin (elapsedTime state * 1) * 0.1 + pointer_x state * 0.6) 0.1"
  by (simp add: frame_head_def Let_def)

lemma frames_headRef_attached:
  "headRef c \<noteq> None \<Longrightarrow> headRef (frames_CalicoCat fs c) \<noteq> None"
  by (induction fs arbitrary: c) (auto simp: useFrame_headRef)

lemma frames_rightArmRef: "rightArmRef (frames_CalicoCat fs c) = rightArmRef c"
  by (induction fs arbitrary: c) (auto simp: useFrame_rightArmRef)

lemma frames_snoc:
  "frames_CalicoCat (fs @ [(state, delta)]) c = useFrame_CalicoCat state delta (frames_CalicoCat fs c)"
  by (induction fs arbitrary: c) auto

text \<open>The blush value stays in \<open>[0, 1]\<close> along frames whose lerp factor is at most 1.\<close>

lemma blush_stays_in_unit_interval:
  assumes "0 \<le> delta * 3" "delta * 3 \<le> 1" "0 \<le> currentBlush c" "currentBlush c \<le> 1"
  shows "0 \<le> currentBlush (useFrame_CalicoCat state delta c)
       \<and> currentBlush (useFrame_CalicoCat state delta c) \<le> 1"
proof (cases "isBlushing c")
  case True
  with lerp_between [OF assms(1,2), of "currentBlush c" 1] assms(3,4) show ?thesis
    by (simp add: useFrame_currentBlush)
next
  case False
  with lerp_between [OF assms(1,2), of "currentBlush c" 0] assms(3,4) show ?thesis
    by (simp add: useFrame_currentBlush)
qed

text \<open>
  Claim C2. The smoothed blush value is meant to stay in \<open>[0, 1]\<close> (the source declares
  \<open>currentBlush\<close> as a value from 0 to 1). The lerp factor is \<open>delta * 3\<close>, unclamped:
  one frame that took a second (\<open>delta = 1\<close>) while the cat is blushing takes the value from
  0 to 3. The bound holds for frames with \<open>delta * 3 \<le> 1\<close>
  (lemma \<open>blush_stays_in_unit_interval\<close>).
\<close>

theorem C2_blush_overshoots_on_long_frame:
  "currentBlush (useFrame_CalicoCat \<lparr>elapsedTime = 0, pointer_x = 0, pointer_y = 0\<rparr> 1
       (CalicoCat\<lparr>isBlushing := True\<rparr>)) = 3
   \<and> \<not> currentBlush (useFrame_CalicoCat \<lparr>elapsedTime = 0, pointer_x = 0, pointer_y = 0\<rparr> 1
       (CalicoCat\<lparr>isBlushing := True\<rparr>)) \<le> 1"
  by (simp add: useFrame_currentBlush lerp_def CalicoCat_def)

text \<open>
  Claim C4. For a smoothing factor \<open>alpha\<close> in \<open>(0, 1]\<close>, \<open>lerp x T alpha\<close> lies between
  \<open>x\<close> and \<open>T\<close> and is no farther from \<open>T\<close> than \<open>x\<close> was. In the cat, after
  any earlier frames, the next frame moves the head's \<open>rotation.x\<close> by the factor 0.1
  toward the target \<open>- (pointer.y * 0.3)\<close>: the new value lies between the old one and the
  target, and its distance to the target has not grown. With the pointer held still the
  target is the same at every frame, so the distance is non-increasing along the frames.
\<close>

theorem C4_head_rotation_never_overshoots:
  assumes "0 < alpha" "alpha \<le> 1" "headRef c = Some h"
  shows "min x T \<le> lerp x T alpha \<and> lerp x T alpha \<le> max x T
       \<and> \<bar>lerp x T alpha - T\<bar> \<le> \<bar>x - T\<bar>
       \<and> (\<exists>h0 h1. headRef (frames_CalicoCat fs c) = Some h0
             \<and> headRef (frames_CalicoCat (fs @ [(state, delta)]) c) = Some h1
             \<and> vx (rotation h1) = lerp (vx (rotation h0)) (- (pointer_y state * 0.3)) 0.1
             \<and> min (vx (rotation h0)) (- (pointer_y state * 0.3)) \<le> vx (rotation h1)
             \<and> vx (rotation h1) \<le> max (vx (rotation h0)) (- (pointer_y state * 0.3))
             \<and> \<bar>vx (rotation h1) - (- (pointer_y state * 0.3))\<bar>
                 \<le> \<bar>vx (rotation h0) - (- (pointer_y state * 0.3))\<bar>)"
proof -
  have a: "0 \<le> alpha" using assms(1) by simp
  have k: "(0::real) \<le> 0.1" "(0.1::real) \<le> 1" by simp_all
  let ?T = "- (pointer_y state * 0.3)"
  from assms(3) frames_headRef_attached [of c fs]
  obtain h0 where h0: "headRef (frames_CalicoCat fs c) = Some h0"
    by auto
  let ?h = "frame_head state h0"
  have "headRef (frames_CalicoCat (fs @ [(state, delta)]) c) = Some ?h"
    using h0 by (simp add: frames_snoc useFrame_headRef)
  moreover have "vx (rotation ?h) = lerp (vx (rotation h0)) ?T 0.1"
    by (rule frame_head_rotation_x)
  moreover have "min (vx (rotation h0)) ?T \<le> vx (rotation ?h)
      \<and> vx (rotation ?h) \<le> max (vx (rotation h0)) ?T"
    using lerp_between [OF k, of "vx (rotation h0)" ?T] by (simp only: frame_head_rotation_x)
  moreover have "\<bar>vx (rotation ?h) - ?T\<bar> \<le> \<bar>vx (rotation h0) - ?T\<bar>"
    using lerp_distance [OF k, of "vx (rotation h0)" ?T] by (simp only: frame_head_rotation_x)
  ultimately show ?thesis
    using h0 lerp_between [OF a assms(2), of x T] lerp_distance [OF a assms(2), of x T]
    by blast
qed

theorem C4_head_rotation_never_overshoots_witness:
  "(0::real) < 0.1 \<and> (0.1::real) \<le> 1
   \<and> headRef CalicoCat = Some (group (Vector3 0 1.35 0) (Vector3 0 0 0))
   \<and> min 0 1 \<le> lerp 0 1 0.1 \<and> lerp 0 1 0.1 \<le> max 0 1
   \<and> \<bar>lerp 0 1 0.1 - 1\<bar> \<le> \<bar>0 - 1 :: real\<bar>
   \<and> (\<exists>h0 h1. headRef (frames_CalicoCat [] CalicoCat) = Some h0
         \<and> headRef (frames_CalicoCat ([] @ [(\<lparr>elapsedTime = 0, pointer_x = 0, pointer_y = 1\<rparr>, 0)])
               CalicoCat) = Some h1
         \<and> vx (rotation h1) = lerp (vx (rotation h0)) (- (1 * 0.3)) 0.1
         \<and> min (vx (rotation h0)) (- (1 * 0.3)) \<le> vx (rotation h1)
         \<and> vx (rotation h1) \<le> max (vx (rotation h0)) (- (1 * 0.3))
         \<and> \<bar>vx (rotation h1) - (- (1 * 0.3))\<bar> \<le> \<bar>vx (rotation h0) - (- (1 * 0.3))\<bar>)"
proof -
  have p: "(0::real) < 0.1" and q: "(0.1::real) \<le> 1"
    by simp_all
  have h: "headRef CalicoCat = Some (group (Vector3 0 1.35 0) (Vector3 0 0 0))"
    by (simp add: CalicoCat_def)
  show ?thesis
    using p q h
      C4_head_rotation_never_overshoots [OF p q h, of 0 1 "[]"
        "\<lparr>elapsedTime = 0, pointer_x = 0, pointer_y = 1\<rparr>" 0]
    by simp
qed

lemma useFrame_written_nodes:
  "set (written_nodes c (useFrame_CalicoCat state delta c))
     \<subseteq> {Head, Body, Tail, LeftArm, LeftCheek, RightCheek}"
  by (auto simp: written_nodes_def node_written_def useFrame_rightArmRef split: cat_node.splits)

text \<open>
  Claim C9, amended. A frame never changes the right arm: after any frames it keeps its
  construction values, position \<open>[-0.7, 0.6, 0.3]\<close> and rotation \<open>[0, 0, -2.0]\<close>. The nodes
  a frame can write are the head, the body, the tail, the left arm and the two cheek
  meshes.
\<close>

theorem C9_right_arm_and_cheeks:
  "rightArmRef (useFrame_CalicoCat state delta c) = rightArmRef c
   \<and> rightArmRef (frames_CalicoCat fs CalicoCat)
       = Some (group (Vector3 (- 0.7) 0.6 0.3) (Vector3 0 0 (- 2.0)))
   \<and> set (written_nodes c (useFrame_CalicoCat state delta c))
       \<subseteq> {Head, Body, Tail, LeftArm, LeftCheek, RightCheek}"
  using useFrame_written_nodes [of c state delta]
  by (simp add: useFrame_rightArmRef frames_rightArmRef) (simp add: CalicoCat_def)

theorem C9_right_arm_and_cheeks_witness:
  "rightArmRef (useFrame_CalicoCat \<lparr>elapsedTime = 0, pointer_x = 0, pointer_y = 0\<rparr> 0 CalicoCat)
     = Some (group (Vector3 (- 0.7) 0.6 0.3) (Vector3 0 0 (- 2.0)))
   \<and> set (written_nodes CalicoCat
         (useFrame_CalicoCat \<lparr>elapsedTime = 0, pointer_x = 0, pointer_y = 0\<rparr> 0 CalicoCat))
       \<subseteq> {Head, Body, Tail, LeftArm, LeftCheek, RightCheek}"
  using C9_right_arm_and_cheeks [of "\<lparr>elapsedTime = 0, pointer_x = 0, pointer_y = 0\<rparr>" 0 CalicoCat "[]"]
  by (simp add: CalicoCat_def)

text \<open>
  Claim C9 as stated names the head, body, tail and left arm as the only nodes written.
  The first frame after construction already writes the left cheek: its material's
  opacity goes from 0.4 to 0.2.
\<close>

theorem C9_cheek_written_counterexample:
  "\<not> (rightArmRef (useFrame_CalicoCat \<lparr>elapsedTime = 0, pointer_x = 0, pointer_y = 0\<rparr> 0 CalicoCat)
         = rightArmRef CalicoCat
       \<and> set (written_nodes CalicoCat
             (useFrame_CalicoCat \<lparr>elapsedTime = 0, pointer_x = 0, pointer_y = 0\<rparr> 0 CalicoCat))
           \<subseteq> {Head, Body, Tail, LeftArm})"
proof -
  have "mat_opacity (cheek (Vector3 (-0.45) (-0.05) (-0.05))) = 0.4"
    by (simp add: cheek_def)
  moreover have "leftCheekRef (useFrame_CalicoCat \<lparr>elapsedTime = 0, pointer_x = 0, pointer_y = 0\<rparr> 0 CalicoCat)
      = Some (frame_cheek 1 (color_lerp (Color 0xff 0xb7 0xb2) (Color 0xff 0x80 0xab) 0) 0.2
               (cheek (Vector3 (-0.45) (-0.05) (-0.05))))"
    by (simp add: useFrame_leftCheekRef lerp_def CalicoCat_def)
  moreover have "mat_opacity (frame_cheek 1 (color_lerp (Color 0xff 0xb7 0xb2) (Color 0xff 0x80 0xab) 0) 0.2
               (cheek (Vector3 (-0.45) (-0.05) (-0.05)))) = 0.2"
    by (simp add: frame_cheek_def)
  ultimately have "leftCheekRef (useFrame_CalicoCat \<lparr>elapsedTime = 0, pointer_x = 0, pointer_y = 0\<rparr> 0 CalicoCat)
      \<noteq> leftCheekRef CalicoCat"
    by (auto simp: CalicoCat_def)
  then have "LeftCheek \<in> set (written_nodes CalicoCat
       (useFrame_CalicoCat \<lparr>elapsedTime = 0, pointer_x = 0, pointer_y = 0\<rparr> 0 CalicoCat))"
    by (simp add: written_nodes_def node_written_def)
  then show ?thesis
    by auto
qed

subsection \<open>The blush timer\<close>

lemma timer_inv_init: "timer_inv (host0, CalicoCat)"
  by (simp add: timer_inv_def host0_def)

lemma filter_all_same:
  "list_all (\<lambda>(j, w). j \<noteq> 0 \<and> r = Some j) ts \<Longrightarrow> r = Some i \<Longrightarrow> filter (\<lambda>(j, due). j \<noteq> i) ts = []"
  by (induction ts) auto

lemma handleHeadClick_pending:
  assumes "timer_inv s"
  shows "timers (fst (handleHeadClick s)) = [(nextTimerId (fst s), now (fst s) + 2000)]
       \<and> now (fst (handleHeadClick s)) = now (fst s)
       \<and> nextTimerId (fst (handleHeadClick s)) = Suc (nextTimerId (fst s))
       \<and> blushTimeoutRef (snd (handleHeadClick s)) = Some (nextTimerId (fst s))
       \<and> isBlushing (snd (handleHeadClick s))"
proof (cases "blushTimeoutRef (snd s)")
  case None
  with assms have "timers (fst s) = []"
    by (cases "timers (fst s)") (auto simp: timer_inv_def)
  with None show ?thesis
    by (simp add: handleHeadClick_def setTimeout_def Let_def)
next
  case (Some i)
  show ?thesis
  proof (cases "i = 0")
    case True
    with Some assms have "timers (fst s) = []"
      by (cases "timers (fst s)") (auto simp: timer_inv_def)
    with Some True show ?thesis
      by (simp add: handleHeadClick_def setTimeout_def Let_def)
  next
    case False
    from assms Some have "filter (\<lambda>(j, due). j \<noteq> i) (timers (fst s)) = []"
      by (intro filter_all_same [where r = "Some i"]) (simp_all add: timer_inv_def)
    with Some False show ?thesis
      by (simp add: handleHeadClick_def setTimeout_def clearTimeout_def Let_def)
  qed
qed

lemma handleHeadClick_inv:
  assumes "timer_inv s"
  shows "timer_inv (handleHeadClick s)"
  using handleHeadClick_pending [OF assms] assms
  by (simp add: timer_inv_def)

lemma fold_reset_blushTimeoutRef:
  "blushTimeoutRef (fold (\<lambda>_ c. c\<lparr>isBlushing := False\<rparr>) due c) = blushTimeoutRef c"
  by (induction due arbitrary: c) auto

lemma fold_reset_isBlushing:
  "isBlushing (fold (\<lambda>_ c. c\<lparr>isBlushing := False\<rparr>) due c) = (due = [] \<and> isBlushing c)"
  by (induction due arbitrary: c) auto

lemma elapse_inv:
  assumes "timer_inv s"
  shows "timer_inv (elapse d s)"
  using assms
  by (auto simp: timer_inv_def elapse_def Let_def fold_reset_blushTimeoutRef list_all_iff)

lemma run_inv: "timer_inv s \<Longrightarrow> timer_inv (run es s)"
proof (induction es arbitrary: s)
  case Nil
  then show ?case by simp
next
  case (Cons e es)
  then show ?case
    by (cases e) (simp_all add: handleHeadClick_inv elapse_inv)
qed

lemma run_append: "run (es @ fs) s = run fs (run es s)"
proof (induction es arbitrary: s)
  case Nil
  then show ?case by simp
next
  case (Cons e es)
  then show ?case by (cases e) simp_all
qed

lemma elapse_idle:
  assumes "timers (fst s) = []" "\<not> isBlushing (snd s)"
  shows "timers (fst (elapse d s)) = [] \<and> \<not> isBlushing (snd (elapse d s))"
  using assms by (simp add: elapse_def Let_def)

lemma run_elapse_idle:
  "timers (fst s) = [] \<Longrightarrow> \<not> isBlushing (snd s) \<Longrightarrow> \<not> isBlushing (snd (run (map Elapse ds) s))"
proof (induction ds arbitrary: s)
  case Nil
  then show ?case by simp
next
  case (Cons d ds)
  from elapse_idle [OF Cons.prems] Cons.IH [of "elapse d s"] show ?case
    by simp
qed

lemma run_elapse_pending:
  "timers (fst s) = [(i, w)] \<Longrightarrow> isBlushing (snd s) \<Longrightarrow> now (fst s) < w \<Longrightarrow>
     isBlushing (snd (run (map Elapse ds) s)) = (now (fst s) + sum_list ds < w)"
proof (induction ds arbitrary: s)
  case Nil
  then show ?case by simp
next
  case (Cons d ds)
  show ?case
  proof (cases "w \<le> now (fst s) + d")
    case True
    with Cons.prems have "timers (fst (elapse d s)) = []" and "\<not> isBlushing (snd (elapse d s))"
      by (simp_all add: elapse_def Let_def)
    then have "\<not> isBlushing (snd (run (map Elapse ds) (elapse d s)))"
      by (rule run_elapse_idle)
    with True show ?thesis by simp
  next
    case False
    with Cons.prems have "timers (fst (elapse d s)) = [(i, w)]" and "isBlushing (snd (elapse d s))"
      and "now (fst (elapse d s)) = now (fst s) + d"
      by (simp_all add: elapse_def Let_def)
    with False Cons.IH [of "elapse d s"] show ?thesis
      by (simp add: add.assoc)
  qed
qed

text \<open>
  Claim C1. Times are in milliseconds. After any history of clicks and waiting, a click
  on the head leaves exactly one pending timer, due 2000 ms after that click (every
  earlier one is cancelled), and while no further click comes the cat is blushing
  exactly as long as less than 2000 ms have passed since that click. For clicks at 0
  and at 1500, the cat is blushing at every time \<open>1500 + d\<close> before 3500 and not from
  3500 on; at 2000 it is still blushing.
\<close>

theorem C1_blush_timer_reset:
  "isBlushing (snd (run (es @ HeadClick # map Elapse ds) (host0, CalicoCat))) = (sum_list ds < 2000)
   \<and> map snd (timers (fst (run (es @ [HeadClick]) (host0, CalicoCat))))
       = [now (fst (run es (host0, CalicoCat))) + 2000]
   \<and> isBlushing (snd (run [HeadClick, Elapse 1500, HeadClick, Elapse d] (host0, CalicoCat)))
       = (1500 + d < 3500)"
proof -
  have main: "isBlushing (snd (run (es @ HeadClick # map Elapse ds) (host0, CalicoCat)))
       = (sum_list ds < 2000)
     \<and> map snd (timers (fst (run (es @ [HeadClick]) (host0, CalicoCat))))
       = [now (fst (run es (host0, CalicoCat))) + 2000]" for es ds
  proof -
    let ?s = "run es (host0, CalicoCat)"
    have inv: "timer_inv ?s"
      by (rule run_inv [OF timer_inv_init])
    note p = handleHeadClick_pending [OF inv]
    from p have "isBlushing (snd (run (map Elapse ds) (handleHeadClick ?s)))
        = (now (fst (handleHeadClick ?s)) + sum_list ds < now (fst ?s) + 2000)"
      by (intro run_elapse_pending [where i = "nextTimerId (fst ?s)"]) simp_all
    with p show ?thesis
      by (simp add: run_append)
  qed
  from main [of "[HeadClick, Elapse 1500]" "[d]"] main [of es ds] show ?thesis
    by simp
qed

theorem C1_blush_timer_reset_witness:
  "isBlushing (snd (run ([HeadClick, Elapse 1500] @ HeadClick # map Elapse [1999]) (host0, CalicoCat)))
   \<and> \<not> isBlushing (snd (run ([HeadClick, Elapse 1500] @ HeadClick # map Elapse [2000]) (host0, CalicoCat)))
   \<and> isBlushing (snd (run [HeadClick, Elapse 1500, HeadClick, Elapse 500] (host0, CalicoCat)))"
  using C1_blush_timer_reset [of "[HeadClick, Elapse 1500]" "[1999]" 500]
    C1_blush_timer_reset [of "[HeadClick, Elapse 1500]" "[2000]" 500]
  by simp

subsection \<open>The rotating tree\<close>

lemma frames_RotatingTree_Some:
  "frames_RotatingTree ds (Some g)
     = Some (g\<lparr>rotation := (rotation g)\<lparr>vy := vy (rotation g) + 0.15 * sum_list ds\<rparr>\<rparr>)"
proof (induction ds arbitrary: g)
  case Nil
  then show ?case by simp
next
  case (Cons d ds)
  then show ?case
    by (simp add: useFrame_RotatingTree_def algebra_simps)
qed

text \<open>
  Claim C5. Starting from the tree as constructed, frames whose deltas add up to \<open>T\<close>
  leave the rotation angle at \<open>0.15 * T\<close>, which is congruent to \<open>0.15 * T\<close> modulo
  \<open>2 * pi\<close>; any other split of \<open>T\<close> into frames gives the same group.
\<close>

theorem C5_tree_rotation_frame_rate_independent:
  assumes "sum_list ds = T" "sum_list ds' = T"
  shows "(\<exists>g. frames_RotatingTree ds RotatingTree = Some g
            \<and> vy (rotation g) = 0.15 * T
            \<and> (\<exists>k::int. vy (rotation g) - 0.15 * T = of_int k * (2 * pi)))
       \<and> frames_RotatingTree ds' RotatingTree = frames_RotatingTree ds RotatingTree"
proof -
  have "\<exists>k::int. (0::real) = of_int k * (2 * pi)"
    by (rule exI [of _ 0]) simp
  then show ?thesis
    using assms by (simp add: RotatingTree_def frames_RotatingTree_Some group_def Vector3_def)
qed

theorem C5_tree_rotation_frame_rate_independent_witness:
  "sum_list [1/2, 1/2] = (1::real) \<and> sum_list [1/4, 3/4] = (1::real)
   \<and> (\<exists>g. frames_RotatingTree [1/2, 1/2] RotatingTree = Some g
          \<and> vy (rotation g) = 0.15 * 1
          \<and> (\<exists>k::int. vy (rotation g) - 0.15 * 1 = of_int k * (2 * pi)))
   \<and> frames_RotatingTree [1/4, 3/4] RotatingTree = frames_RotatingTree [1/2, 1/2] RotatingTree"
proof -
  have a: "sum_list [1/2, 1/2] = (1::real)" and b: "sum_list [1/4, 3/4] = (1::real)"
    by simp_all
  show ?thesis
    using a b C5_tree_rotation_frame_rate_independent [OF a b]
    by blast
qed

subsection \<open>Drifting snow\<close>

lemma forEach_length: "length (fst (forEach rnd time i ps km)) = length ps"
  by (induction ps arbitrary: i km) (simp_all add: Let_def)

lemma resets_Nil: "resets [] = 0"
  by (simp add: resets_def)

lemma resets_Cons:
  "resets (p # ps) = (if vy (p_position p) - speed p < - 3 then 1 else 0) + resets ps"
  by (simp add: resets_def)

lemma updateParticle_calls:
  "snd (updateParticle rnd time (p, k)) = k + 2 * resets [p]"
  by (simp add: updateParticle_def Let_def resets_def)

lemma forEach_calls:
  "fst (snd (forEach rnd time i ps km)) = fst km + 2 * resets ps"
proof (induction ps arbitrary: i km)
  case Nil
  then show ?case by (simp add: resets_Nil)
next
  case (Cons p ps)
  have "fst (snd (forEach rnd time i (p # ps) km))
      = snd (updateParticle rnd time (p, fst km)) + 2 * resets ps"
    by (simp add: Let_def Cons.IH)
  also have "\<dots> = fst km + 2 * resets (p # ps)"
    by (simp add: updateParticle_calls resets_Cons resets_Nil)
  finally show ?case .
qed

lemma forEach_nth_draw:
  "j < length ps \<Longrightarrow>
     fst (forEach rnd time i ps km) ! j
       = fst (updateParticle rnd time (ps ! j, fst km + 2 * resets (take j ps)))"
proof (induction ps arbitrary: i km j)
  case Nil
  then show ?case by simp
next
  case (Cons p ps)
  show ?case
  proof (cases j)
    case 0
    then show ?thesis
      by (simp add: Let_def resets_Nil)
  next
    case (Suc j')
    with Cons.prems have j': "j' < length ps" by simp
    have "fst (forEach rnd time i (p # ps) km) ! j
        = fst (forEach rnd time (Suc i) ps
            (snd (updateParticle rnd time (p, fst km)),
             (snd km)\<lparr>instances := (instances (snd km))
                [i := dummy time (fst (updateParticle rnd time (p, fst km)))]\<rparr>)) ! j'"
      using Suc by (simp add: Let_def)
    also have "\<dots> = fst (updateParticle rnd time
        (ps ! j', snd (updateParticle rnd time (p, fst km)) + 2 * resets (take j' ps)))"
      by (simp add: Cons.IH [OF j'])
    also have "snd (updateParticle rnd time (p, fst km)) + 2 * resets (take j' ps)
        = fst km + 2 * resets (take j (p # ps))"
      using Suc by (simp add: updateParticle_calls resets_Cons resets_Nil)
    finally show ?thesis
      using Suc by simp
  qed
qed

lemma updateParticle_speed: "speed (fst (updateParticle rnd time (p, k))) = speed p"
  by (simp add: updateParticle_def Let_def)

lemma updateParticle_fall:
  assumes "\<not> vy (p_position p) - speed p < - 3"
  shows "vy (p_position (fst (updateParticle rnd time (p, k)))) = vy (p_position p) - speed p"
  using assms by (simp add: updateParticle_def Let_def)

lemma updateParticle_reset:
  assumes "vy (p_position p) - speed p < - 3"
  shows "p_position (fst (updateParticle rnd time (p, k)))
       = \<lparr>vx = (rnd k - 0.5) * 15, vy = 10, vz = (rnd (Suc k) - 0.5) * 15\<rparr>"
  using assms by (simp add: updateParticle_def Let_def)

lemma spawn_range:
  assumes "0 \<le> r" "r < 1"
  shows "- 7.5 \<le> (r - 0.5) * 15 \<and> (r - 0.5) * 15 < (7.5::real)"
  using assms by (simp add: algebra_simps)

lemma useFrame_DriftingSnow_particles:
  "meshRef s = Some m \<Longrightarrow>
     particles (useFrame_DriftingSnow rnd state s)
       = fst (forEach rnd (elapsedTime state) 0 (particles s) (randomCalls s, m))"
  by (simp add: useFrame_DriftingSnow_def Let_def)

lemma updateParticle_drift:
  assumes "\<not> vy (p_position p) - speed p < - 3"
  shows "p_position (fst (updateParticle rnd time (p, k)))
       = \<lparr>vx = vx (p_position p) + sin (time * 0.5 + driftOffset p) * 0.02,
          vy = vy (p_position p) - speed p,
          vz = vz (p_position p) + cos (time * 0.3 + driftOffset p) * 0.02\<rparr>"
  using assms by (simp add: updateParticle_def Let_def)

lemma useFrame_DriftingSnow_randomCalls:
  "meshRef s = Some m \<Longrightarrow>
     randomCalls (useFrame_DriftingSnow rnd state s) = randomCalls s + 2 * resets (particles s)"
  by (simp add: useFrame_DriftingSnow_def Let_def forEach_calls)

text \<open>
  Claim C3, amended. With the instanced mesh attached and \<open>Math.random()\<close> answering in
  \<open>[0, 1)\<close>, a frame keeps the number of particles and each particle's speed, and for
  every particle: if its previous \<open>y\<close> minus its speed is below \<open>-3\<close> then its new \<open>y\<close> is
  10 and its new \<open>x\<close> and \<open>z\<close> lie in \<open>[-7.5, 7.5)\<close>; otherwise its new \<open>y\<close> is its
  previous \<open>y\<close> minus its speed. The new \<open>x\<close> and \<open>z\<close> of a reset particle are fresh
  draws: \<open>(r - 0.5) * 15\<close> for two consecutive answers \<open>r\<close> of \<open>Math.random()\<close>, the
  first two not used before it (every reset particle ahead of it in the list took two,
  and the frame ends with two calls counted per reset). A particle that is not reset
  only drifts: \<open>x\<close> by \<open>sin (time * 0.5 + driftOffset) * 0.02\<close> and \<open>z\<close> by
  \<open>cos (time * 0.3 + driftOffset) * 0.02\<close>.
\<close>

theorem C3_particle_wraparound:
  assumes "\<forall>n. 0 \<le> rnd n \<and> rnd n < 1" "meshRef s = Some m" "i < length (particles s)"
  shows "length (particles (useFrame_DriftingSnow rnd state s)) = length (particles s)
       \<and> speed (particles (useFrame_DriftingSnow rnd state s) ! i) = speed (particles s ! i)
       \<and> (if vy (p_position (particles s ! i)) - speed (particles s ! i) < - 3
          then vy (p_position (particles (useFrame_DriftingSnow rnd state s) ! i)) = 10
             \<and> - 7.5 \<le> vx (p_position (particles (useFrame_DriftingSnow rnd state s) ! i))
             \<and> vx (p_position (particles (useFrame_DriftingSnow rnd state s) ! i)) < 7.5
             \<and> - 7.5 \<le> vz (p_position (particles (useFrame_DriftingSnow rnd state s) ! i))
             \<and> vz (p_position (particles (useFrame_DriftingSnow rnd state s) ! i)) < 7.5
          else vy (p_position (particles (useFrame_DriftingSnow rnd state s) ! i))
                 = vy (p_position (particles s ! i)) - speed (particles s ! i))
       \<and> (if vy (p_position (particles s ! i)) - speed (particles s ! i) < - 3
          then vx (p_position (particles (useFrame_DriftingSnow rnd state s) ! i))
                 = (rnd (randomCalls s + 2 * resets (take i (particles s))) - 0.5) * 15
             \<and> vz (p_position (particles (useFrame_DriftingSnow rnd state s) ! i))
                 = (rnd (Suc (randomCalls s + 2 * resets (take i (particles s)))) - 0.5) * 15
          else vx (p_position (particles (useFrame_DriftingSnow rnd state s) ! i))
                 = vx (p_position (particles s ! i))
                   + sin (elapsedTime state * 0.5 + driftOffset (particles s ! i)) * 0.02
             \<and> vz (p_position (particles (useFrame_DriftingSnow rnd state s) ! i))
                 = vz (p_position (particles s ! i))
                   + cos (elapsedTime state * 0.3 + driftOffset (particles s ! i)) * 0.02)
       \<and> randomCalls (useFrame_DriftingSnow rnd state s)
           = randomCalls s + 2 * resets (particles s)"
proof -
  let ?p = "particles s ! i"
  let ?p' = "particles (useFrame_DriftingSnow rnd state s) ! i"
  let ?k = "randomCalls s + 2 * resets (take i (particles s))"
  note ps = useFrame_DriftingSnow_particles [OF assms(2)]
  have k: "?p' = fst (updateParticle rnd (elapsedTime state) (?p, ?k))"
    unfolding ps using forEach_nth_draw [OF assms(3), of rnd "elapsedTime state" 0 "(randomCalls s, m)"]
    by simp
  have len: "length (particles (useFrame_DriftingSnow rnd state s)) = length (particles s)"
    by (simp add: ps forEach_length)
  have sp: "speed ?p' = speed ?p"
    by (simp add: k updateParticle_speed)
  have calls: "randomCalls (useFrame_DriftingSnow rnd state s)
      = randomCalls s + 2 * resets (particles s)"
    by (rule useFrame_DriftingSnow_randomCalls [OF assms(2)])
  show ?thesis
  proof (cases "vy (p_position ?p) - speed ?p < - 3")
    case True
    have pos: "p_position ?p' = \<lparr>vx = (rnd ?k - 0.5) * 15, vy = 10, vz = (rnd (Suc ?k) - 0.5) * 15\<rparr>"
      unfolding k by (rule updateParticle_reset [OF True])
    from assms(1) have "0 \<le> rnd ?k" "rnd ?k < 1" "0 \<le> rnd (Suc ?k)" "rnd (Suc ?k) < 1"
      by simp_all
    then have "- 7.5 \<le> (rnd ?k - 0.5) * 15 \<and> (rnd ?k - 0.5) * 15 < 7.5"
      and "- 7.5 \<le> (rnd (Suc ?k) - 0.5) * 15 \<and> (rnd (Suc ?k) - 0.5) * 15 < 7.5"
      by (simp_all only: spawn_range)
    with True len sp calls show ?thesis
      by (simp only: pos vector3.simps if_True simp_thms)
  next
    case False
    have pos: "p_position ?p'
       = \<lparr>vx = vx (p_position ?p) + sin (elapsedTime state * 0.5 + driftOffset ?p) * 0.02,
          vy = vy (p_position ?p) - speed ?p,
          vz = vz (p_position ?p) + cos (elapsedTime state * 0.3 + driftOffset ?p) * 0.02\<rparr>"
      unfolding k by (rule updateParticle_drift [OF False])
    with False len sp calls show ?thesis
      by (simp only: pos vector3.simps if_False simp_thms)
  qed
qed

lemma snow_one_frame:
  "p_position (particles (useFrame_DriftingSnow rnd_low
       \<lparr>elapsedTime = 0, pointer_x = 0, pointer_y = 0\<rparr> snow_one) ! 0)
     = \<lparr>vx = - 7.5, vy = 10, vz = - 7.5\<rparr>"
  by (simp add: useFrame_DriftingSnow_def snow_one_def Let_def updateParticle_def rnd_low_def
      Vector3_def)

theorem C3_particle_wraparound_witness:
  "(\<forall>n. 0 \<le> rnd_low n \<and> rnd_low n < 1)
   \<and> meshRef snow_one \<noteq> None \<and> 0 < length (particles snow_one)
   \<and> vy (p_position (particles snow_one ! 0)) - speed (particles snow_one ! 0) < - 3
   \<and> vy (p_position (particles (useFrame_DriftingSnow rnd_low
           \<lparr>elapsedTime = 0, pointer_x = 0, pointer_y = 0\<rparr> snow_one) ! 0)) = 10
   \<and> - 7.5 \<le> vx (p_position (particles (useFrame_DriftingSnow rnd_low
           \<lparr>elapsedTime = 0, pointer_x = 0, pointer_y = 0\<rparr> snow_one) ! 0))
   \<and> vx (p_position (particles (useFrame_DriftingSnow rnd_low
           \<lparr>elapsedTime = 0, pointer_x = 0, pointer_y = 0\<rparr> snow_one) ! 0)) < 7.5
   \<and> vx (p_position (particles (useFrame_DriftingSnow rnd_low
           \<lparr>elapsedTime = 0, pointer_x = 0, pointer_y = 0\<rparr> snow_one) ! 0))
       = (rnd_low 0 - 0.5) * 15
   \<and> vz (p_position (particles (useFrame_DriftingSnow rnd_low
           \<lparr>elapsedTime = 0, pointer_x = 0, pointer_y = 0\<rparr> snow_one) ! 0))
       = (rnd_low 1 - 0.5) * 15
   \<and> randomCalls (useFrame_DriftingSnow rnd_low
           \<lparr>elapsedTime = 0, pointer_x = 0, pointer_y = 0\<rparr> snow_one) = 2"
proof -
  have r: "\<forall>n. 0 \<le> rnd_low n \<and> rnd_low n < 1"
    by (simp add: rnd_low_def)
  have m: "meshRef snow_one = Some \<lparr>instances = [group (Vector3 0 0 0) (Vector3 0 0 0)],
                       instanceMatrix_needsUpdate = False\<rparr>"
    by (simp add: snow_one_def)
  have i: "0 < length (particles snow_one)"
    by (simp add: snow_one_def)
  have below: "vy (p_position (particles snow_one ! 0)) - speed (particles snow_one ! 0) < - 3"
    by (simp add: snow_one_def Vector3_def)
  have c0: "randomCalls snow_one + 2 * resets (take 0 (particles snow_one)) = 0"
    by (simp add: snow_one_def resets_def)
  have c1: "randomCalls snow_one + 2 * resets (particles snow_one) = 2"
    by (simp add: snow_one_def resets_def Vector3_def)
  from C3_particle_wraparound [OF r m i, of "\<lparr>elapsedTime = 0, pointer_x = 0, pointer_y = 0\<rparr>",
      unfolded c0 c1] below
  show ?thesis
    using r m i by simp
qed

text \<open>
  Claim C3 as stated puts the fresh \<open>x\<close> and \<open>z\<close> in the open interval \<open>(-7.5, 7.5)\<close>.
  When \<open>Math.random()\<close> answers 0 the particle is reset to \<open>x = -7.5\<close>, the lower end.
\<close>

theorem C3_open_interval_counterexample:
  "\<not> (if vy (p_position (particles snow_one ! 0)) - speed (particles snow_one ! 0) < - 3
      then vy (p_position (particles (useFrame_DriftingSnow rnd_low
                 \<lparr>elapsedTime = 0, pointer_x = 0, pointer_y = 0\<rparr> snow_one) ! 0)) = 10
         \<and> - 7.5 < vx (p_position (particles (useFrame_DriftingSnow rnd_low
                 \<lparr>elapsedTime = 0, pointer_x = 0, pointer_y = 0\<rparr> snow_one) ! 0))
         \<and> vx (p_position (particles (useFrame_DriftingSnow rnd_low
                 \<lparr>elapsedTime = 0, pointer_x = 0, pointer_y = 0\<rparr> snow_one) ! 0)) < 7.5
         \<and> - 7.5 < vz (p_position (particles (useFrame_DriftingSnow rnd_low
                 \<lparr>elapsedTime = 0, pointer_x = 0, pointer_y = 0\<rparr> snow_one) ! 0))
         \<and> vz (p_position (particles (useFrame_DriftingSnow rnd_low
                 \<lparr>elapsedTime = 0, pointer_x = 0, pointer_y = 0\<rparr> snow_one) ! 0)) < 7.5
      else vy (p_position (particles (useFrame_DriftingSnow rnd_low
                 \<lparr>elapsedTime = 0, pointer_x = 0, pointer_y = 0\<rparr> snow_one) ! 0))
             = vy (p_position (particles snow_one ! 0)) - speed (particles snow_one ! 0))"
proof -
  have below: "vy (p_position (particles snow_one ! 0)) - speed (particles snow_one ! 0) < - 3"
    by (simp add: snow_one_def Vector3_def)
  show ?thesis
    unfolding snow_one_frame using below by simp
qed

subsection \<open>The clay wobble\<close>

lemma distortLoop_eq: "distortLoop i pos = take i pos @ map clayWobble (drop i pos)"
proof (induction i pos rule: distortLoop.induct)
  case (1 i pos)
  show ?case
  proof (cases "i < length pos")
    case True
    have "take i pos @ map clayWobble (drop i pos)
        = take i pos @ clayWobble (pos ! i) # map clayWobble (drop (Suc i) pos)"
      using True by (simp add: Cons_nth_drop_Suc [symmetric])
    moreover have "distortLoop i pos
        = take (Suc i) (pos[i := clayWobble (pos ! i)])
            @ map clayWobble (drop (Suc i) (pos[i := clayWobble (pos ! i)]))"
      using True "1.IH" by (subst distortLoop.simps) simp
    moreover have "take (Suc i) (pos[i := clayWobble (pos ! i)]) = take i pos @ [clayWobble (pos ! i)]"
      using True by (simp add: take_Suc_conv_app_nth)
    ultimately show ?thesis
      by simp
  next
    case False
    then show ?thesis
      by (subst distortLoop.simps) simp
  qed
qed

lemma applyClayDistortion_idem:
  "applyClayDistortion cvn (applyClayDistortion cvn mesh) = applyClayDistortion cvn mesh"
  by (simp add: applyClayDistortion_def Let_def split: option.splits)

lemma applyClayDistortion_funpow:
  "(applyClayDistortion cvn ^^ Suc n) mesh = applyClayDistortion cvn mesh"
  by (induction n) (simp_all add: applyClayDistortion_idem)

lemma applyClayDistortion_positions:
  "map_option geo_position (applyClayDistortion cvn (Some m))
     = Some (if userData_distorted m then geo_position m else map clayWobble (geo_position m))"
  by (simp add: applyClayDistortion_def Let_def distortLoop_eq)

text \<open>
  Claim C6. Calling \<open>applyClayDistortion\<close> once or any larger number of times gives the
  same mesh, and so the same vertex positions: those of the mesh as it was if it was
  already marked distorted, and each vertex wobbled once otherwise.
\<close>

theorem C6_clay_distortion_once:
  "(applyClayDistortion cvn ^^ Suc n) mesh = applyClayDistortion cvn mesh
   \<and> map_option geo_position ((applyClayDistortion cvn ^^ Suc n) (Some m))
       = Some (if userData_distorted m then geo_position m else map clayWobble (geo_position m))"
  by (simp only: applyClayDistortion_funpow applyClayDistortion_positions)

theorem C6_clay_distortion_once_witness:
  "map_option geo_position ((applyClayDistortion (\<lambda>ps. ps) ^^ Suc 2)
      (Some \<lparr>userData_distorted = False, geo_position = [Vector3 0 0 0], geo_normal = [],
             position_needsUpdate = False\<rparr>))
    = Some [Vector3 0 0 0.03]"
  using C6_clay_distortion_once [where cvn = "\<lambda>ps. ps" and n = 2 and mesh = None
      and m = "\<lparr>userData_distorted = False, geo_position = [Vector3 0 0 0], geo_normal = [],
             position_needsUpdate = False\<rparr>"]
  by (simp add: clayWobble_def Vector3_def)

subsection \<open>Background music\<close>

text \<open>
  Claim C7. With the audio element attached: when the promise of \<open>play()\<close> rejects, the
  chain ends fulfilled (the rejection is caught, nothing propagates), \<open>isPlaying\<close> is
  false and the element is paused or not as it was; when it resolves, the chain ends
  fulfilled and \<open>isPlaying\<close> is true.
\<close>

theorem C7_autoplay_rejection_handled:
  assumes "audioRef s = Some a"
  shows "fst (useEffect_autoplay (Rejects e) s) = Some Fulfilled
       \<and> isPlaying (snd (useEffect_autoplay (Rejects e) s)) = False
       \<and> map_option paused (audioRef (snd (useEffect_autoplay (Rejects e) s))) = Some (paused a)
       \<and> fst (useEffect_autoplay Resolves s) = Some Fulfilled
       \<and> isPlaying (snd (useEffect_autoplay Resolves s)) = True"
  using assms
  by (simp add: useEffect_autoplay_def Let_def setIsPlaying_def console_log_def audio_play_def)

theorem C7_autoplay_rejection_handled_witness:
  "audioRef App = Some \<lparr>volume = 1, paused = True\<rparr>
   \<and> fst (useEffect_autoplay (Rejects ''NotAllowedError'') App) = Some Fulfilled
   \<and> isPlaying (snd (useEffect_autoplay (Rejects ''NotAllowedError'') App)) = False
   \<and> map_option paused (audioRef (snd (useEffect_autoplay (Rejects ''NotAllowedError'') App))) = Some True
   \<and> fst (useEffect_autoplay Resolves App) = Some Fulfilled
   \<and> isPlaying (snd (useEffect_autoplay Resolves App)) = True"
proof -
  have h: "audioRef App = Some \<lparr>volume = 1, paused = True\<rparr>"
    by (simp add: App_def)
  show ?thesis
    using h C7_autoplay_rejection_handled [OF h, of "''NotAllowedError''"]
    by simp
qed

text \<open>
  Claim C10. With the audio element attached, one call of \<open>toggleMusic\<close> flips
  \<open>isPlaying\<close> and a second call restores it, whatever \<open>play()\<close> answers. When the
  flag was set the call is \<open>pause()\<close> on the element, which leaves it paused, and no
  promise is made; when the flag was clear the call is \<open>play()\<close> on the element, whose
  promise is dropped as it settled. After \<open>play()\<close> the element is no longer paused,
  unless \<open>play()\<close> rejected: then the element is as it was, while the flag is set all
  the same. Volume and console are untouched.
\<close>

theorem C10_toggleMusic_involution:
  assumes "audioRef s = Some a"
  shows "isPlaying (snd (toggleMusic r1 s)) = (\<not> isPlaying s)
       \<and> isPlaying (snd (toggleMusic r2 (snd (toggleMusic r1 s)))) = isPlaying s
       \<and> audioRef (snd (toggleMusic r1 s))
           = Some (if isPlaying s then audio_pause a else audio_play r1 a)
       \<and> audioRef (snd (toggleMusic r2 (snd (toggleMusic r1 s))))
           = Some (if isPlaying s then audio_play r2 (audio_pause a)
                   else audio_pause (audio_play r1 a))
       \<and> fst (toggleMusic r1 s)
           = (if isPlaying s then None
              else (case r1 of Undefined \<Rightarrow> None | Resolves \<Rightarrow> Some Fulfilled
                    | Rejects e \<Rightarrow> Some (Rejected e)))
       \<and> paused (audio_pause a) = True
       \<and> paused (audio_play r1 a) = (case r1 of Rejects e \<Rightarrow> paused a | _ \<Rightarrow> False)
       \<and> volume (audio_pause a) = volume a
       \<and> volume (audio_play r1 a) = volume a
       \<and> console (snd (toggleMusic r1 s)) = console s"
  using assms
  by (simp add: toggleMusic_def setIsPlaying_def audio_pause_def audio_play_def
      split: play_result.splits)

theorem C10_toggleMusic_involution_witness:
  "audioRef App = Some \<lparr>volume = 1, paused = True\<rparr>
   \<and> isPlaying (snd (toggleMusic Resolves App))
   \<and> audioRef (snd (toggleMusic Resolves App)) = Some \<lparr>volume = 1, paused = False\<rparr>
   \<and> fst (toggleMusic Resolves App) = Some Fulfilled
   \<and> \<not> isPlaying (snd (toggleMusic Resolves (snd (toggleMusic Resolves App))))
   \<and> audioRef (snd (toggleMusic Resolves (snd (toggleMusic Resolves App))))
       = Some \<lparr>volume = 1, paused = True\<rparr>"
proof -
  have h: "audioRef App = Some \<lparr>volume = 1, paused = True\<rparr>"
    by (simp add: App_def)
  have n: "\<not> isPlaying App"
    by (simp add: App_def)
  show ?thesis
    using h n C10_toggleMusic_involution [OF h, of Resolves Resolves]
    by (simp add: audio_play_def audio_pause_def)
qed

end
